theory Spec2Isabelle
  imports Complex_Main "HOL-Library.AList"
begin

section \<open>Python values, exceptions and conversions\<close>

text \<open>
  The values that occur in token payloads and in audit snapshots: strings, integers,
  booleans, and numbers that are not integers (a \<open>float\<close>, taken as the number it stands
  for). A Python \<open>dict\<close> with string keys is an association list; \<open>d.get(k)\<close> is
  \<open>map_of d k\<close> and \<open>d.update({k: v})\<close> is \<open>AList.update k v d\<close> (the entry is replaced in
  place when the key is present and appended otherwise, as Python does).
  Instants are whole seconds since the epoch: python-jose turns a \<open>datetime\<close> claim into
  \<open>timegm(utctimetuple())\<close>, which drops the fraction of a second, and compares against
  the current time taken the same way.
\<close>

datatype jvalue = JStr string | JInt int | JBool bool | JNum rat

type_synonym pydict = "(string \<times> jvalue) list"

datatype py_exn =
    ValueError string
  | AttributeError string
  | MultipleResultsFound string
  | NoResultFound string
  | UnknownHashError string

fun exn_str :: "py_exn \<Rightarrow> string" where
  "exn_str (ValueError m) = m"
| "exn_str (AttributeError m) = m"
| "exn_str (MultipleResultsFound m) = m"
| "exn_str (NoResultFound m) = m"
| "exn_str (UnknownHashError m) = m"

text \<open>
  What an endpoint raises: an \<open>HTTPException\<close> with its status code, detail and headers,
  or a Python exception that nothing catches (the framework answers 500).
\<close>

datatype error =
    HTTPException (status_code: nat) (detail: string) (headers: "(string \<times> string) list")
  | Unhandled py_exn

text \<open>
  \<open>int(s)\<close> on a string, for ASCII input: surrounding whitespace (tab, line feed,
  vertical tab, form feed, carriage return, space) is stripped, one sign is allowed, then decimal digits with single underscores between digits. Anything else is
  a \<open>ValueError\<close> (\<open>None\<close> here). Digits and spaces beyond ASCII and the interpreter's
  limit on the number of digits are outside the model.
\<close>

definition py_isspace :: "char \<Rightarrow> bool" where
  "py_isspace c = (c \<in> set [CHR 0x09, CHR 0x0A, CHR 0x0B, CHR 0x0C, CHR 0x0D, CHR 0x20])"

definition py_strip :: "string \<Rightarrow> string" where
  "py_strip s = rev (dropWhile py_isspace (rev (dropWhile py_isspace s)))"

definition digit_val :: "char \<Rightarrow> int option" where
  "digit_val c = map_of (zip ''0123456789'' [0, 1, 2, 3, 4, 5, 6, 7, 8, 9]) c"

fun parse_digits :: "string \<Rightarrow> int \<Rightarrow> int option" where
  "parse_digits [] acc = Some acc"
| "parse_digits [c] acc =
     (case digit_val c of None \<Rightarrow> None | Some v \<Rightarrow> Some (10 * acc + v))"
| "parse_digits (c # d # ds) acc =
     (if c = CHR ''_''
      then (case digit_val d of None \<Rightarrow> None | Some v \<Rightarrow> parse_digits ds (10 * acc + v))
      else (case digit_val c of None \<Rightarrow> None | Some v \<Rightarrow> parse_digits (d # ds) (10 * acc + v)))"

definition parse_unsigned :: "string \<Rightarrow> int option" where
  "parse_unsigned s =
     (case s of
        [] \<Rightarrow> None
      | c # cs \<Rightarrow> (case digit_val c of None \<Rightarrow> None | Some v \<Rightarrow> parse_digits cs v))"

definition py_int_str :: "string \<Rightarrow> int option" where
  "py_int_str s =
     (case py_strip s of
        [] \<Rightarrow> None
      | c # cs \<Rightarrow>
          if c = CHR ''-'' then map_option uminus (parse_unsigned cs)
          else if c = CHR ''+'' then parse_unsigned cs
          else parse_unsigned (c # cs))"

text \<open>
  \<open>int(v)\<close> on a payload value: an integer is itself, a boolean is 0 or 1, and a
  \<open>float\<close> is cut off towards zero.
\<close>

fun py_int :: "jvalue \<Rightarrow> int option" where
  "py_int (JInt n) = Some n"
| "py_int (JBool b) = Some (if b then 1 else 0)"
| "py_int (JStr s) = py_int_str s"
| "py_int (JNum x) = Some (if 0 \<le> x then \<lfloor>x\<rfloor> else \<lceil>x\<rceil>)"

text \<open>\<open>str(n)\<close> on an integer: its decimal digits, with a minus sign when negative.\<close>

definition digit_char :: "nat \<Rightarrow> char" where
  "digit_char n = ''0123456789'' ! (n mod 10)"

function str_nat :: "nat \<Rightarrow> string" where
  "str_nat n = (if n < 10 then [digit_char n] else str_nat (n div 10) @ [digit_char n])"
  by pat_completeness auto
termination
  by (relation "measure id") auto

declare str_nat.simps [simp del]

definition py_str :: "int \<Rightarrow> string" where
  "py_str i = (if i < 0 then CHR ''-'' # str_nat (nat (- i)) else str_nat (nat i))"

section \<open>Configuration (app/core/config.py)\<close>

record settings =
  SECRET_KEY :: string
  ALGORITHM :: string
  ACCESS_TOKEN_EXPIRE_MINUTES :: int
  REFRESH_TOKEN_EXPIRE_DAYS :: int

text \<open>The defaults of \<open>Settings\<close>; the environment can override each field.\<close>

definition default_settings :: settings where
  "default_settings =
     \<lparr> SECRET_KEY = ''your-super-secret-key-change-this-in-production'',
       ALGORITHM = ''HS256'',
       ACCESS_TOKEN_EXPIRE_MINUTES = 30,
       REFRESH_TOKEN_EXPIRE_DAYS = 7 \<rparr>"

section \<open>Signed tokens (python-jose)\<close>

text \<open>
  Modelled from the spec: \<open>jwt.encode\<close> and \<open>jwt.decode\<close> belong to python-jose, a
  third-party library that is not among the repository's files. The spec's token
  verification "checks signature integrity, decodes claims, rejects if \<open>exp\<close> has passed".

  A token is symbolic: a signed token records its claims, the key that signed it and the
  algorithm of its header; any other string is \<open>Opaque\<close>. Decoding under a key succeeds
  only for a token signed with that key under one of the allowed algorithms, so a
  signature cannot be forged without the key.

  After the signature, the library validates the registered claims with its default
  options (leeway 0, no expected audience, issuer, subject or access token):
  \<open>iat\<close>, \<open>nbf\<close> and \<open>exp\<close> must convert with \<open>int\<close>; \<open>nbf\<close> must not lie after now;
  \<open>exp\<close> must not lie before now; an \<open>aud\<close> or \<open>at_hash\<close> claim is refused because
  nothing was given to compare it with; \<open>sub\<close> and \<open>jti\<close> must be strings.
  Every refusal is a \<open>JWTError\<close>, which is \<open>None\<close> here.
\<close>

datatype token = JWS (jws_claims: pydict) (jws_key: string) (jws_alg: string) | Opaque string

definition jwt_encode :: "pydict \<Rightarrow> string \<Rightarrow> string \<Rightarrow> token" where
  "jwt_encode claims key algorithm = JWS claims key algorithm"

definition validate_iat :: "pydict \<Rightarrow> bool" where
  "validate_iat claims =
     (case map_of claims ''iat'' of None \<Rightarrow> True | Some v \<Rightarrow> py_int v \<noteq> None)"

definition validate_nbf :: "int \<Rightarrow> pydict \<Rightarrow> bool" where
  "validate_nbf now claims =
     (case map_of claims ''nbf'' of
        None \<Rightarrow> True
      | Some v \<Rightarrow> (case py_int v of None \<Rightarrow> False | Some nbf \<Rightarrow> \<not> now < nbf))"

definition validate_exp :: "int \<Rightarrow> pydict \<Rightarrow> bool" where
  "validate_exp now claims =
     (case map_of claims ''exp'' of
        None \<Rightarrow> True
      | Some v \<Rightarrow> (case py_int v of None \<Rightarrow> False | Some e \<Rightarrow> \<not> e < now))"

definition validate_aud :: "pydict \<Rightarrow> bool" where
  "validate_aud claims = (map_of claims ''aud'' = None)"

definition is_str_or_absent :: "jvalue option \<Rightarrow> bool" where
  "is_str_or_absent v = (case v of None \<Rightarrow> True | Some (JStr s) \<Rightarrow> True | Some _ \<Rightarrow> False)"

definition validate_sub :: "pydict \<Rightarrow> bool" where
  "validate_sub claims = is_str_or_absent (map_of claims ''sub'')"

definition validate_jti :: "pydict \<Rightarrow> bool" where
  "validate_jti claims = is_str_or_absent (map_of claims ''jti'')"

definition validate_at_hash :: "pydict \<Rightarrow> bool" where
  "validate_at_hash claims = (map_of claims ''at_hash'' = None)"

definition validate_claims :: "int \<Rightarrow> pydict \<Rightarrow> bool" where
  "validate_claims now claims =
     (validate_iat claims \<and> validate_nbf now claims \<and> validate_exp now claims \<and>
      validate_aud claims \<and> validate_sub claims \<and> validate_jti claims \<and>
      validate_at_hash claims)"

definition jwt_decode :: "int \<Rightarrow> token \<Rightarrow> string \<Rightarrow> string list \<Rightarrow> pydict option" where
  "jwt_decode now tok key algorithms =
     (case tok of
        Opaque s \<Rightarrow> None
      | JWS claims k alg \<Rightarrow>
          if alg \<in> set algorithms \<and> k = key \<and> validate_claims now claims
          then Some claims else None)"

section \<open>Token issue and verification (app/core/security.py)\<close>

text \<open>
  \<open>now\<close> is what \<open>datetime.utcnow()\<close> returns; a \<open>timedelta\<close> is a number of seconds.
  \<open>if expires_delta:\<close> is false for \<open>None\<close> and for a zero \<open>timedelta\<close>.
\<close>

definition access_expire :: "settings \<Rightarrow> int \<Rightarrow> int option \<Rightarrow> int" where
  "access_expire cfg now expires_delta =
     (case expires_delta of
        Some d \<Rightarrow> if d \<noteq> 0 then now + d else now + 60 * ACCESS_TOKEN_EXPIRE_MINUTES cfg
      | None \<Rightarrow> now + 60 * ACCESS_TOKEN_EXPIRE_MINUTES cfg)"

definition create_access_token :: "settings \<Rightarrow> int \<Rightarrow> pydict \<Rightarrow> int option \<Rightarrow> token" where
  "create_access_token cfg now data expires_delta =
     (let to_encode = data;
          expire = access_expire cfg now expires_delta;
          to_encode = AList.update ''type'' (JStr ''access'')
                        (AList.update ''exp'' (JInt expire) to_encode)
      in jwt_encode to_encode (SECRET_KEY cfg) (ALGORITHM cfg))"

definition create_refresh_token :: "settings \<Rightarrow> int \<Rightarrow> pydict \<Rightarrow> token" where
  "create_refresh_token cfg now data =
     (let to_encode = data;
          expire = now + 86400 * REFRESH_TOKEN_EXPIRE_DAYS cfg;
          to_encode = AList.update ''type'' (JStr ''refresh'')
                        (AList.update ''exp'' (JInt expire) to_encode)
      in jwt_encode to_encode (SECRET_KEY cfg) (ALGORITHM cfg))"

definition verify_token :: "settings \<Rightarrow> int \<Rightarrow> token \<Rightarrow> string \<Rightarrow> pydict option" where
  "verify_token cfg now tok token_type =
     (case jwt_decode now tok (SECRET_KEY cfg) [ALGORITHM cfg] of
        None \<Rightarrow> None
      | Some payload \<Rightarrow>
          if map_of payload ''type'' \<noteq> Some (JStr token_type) then None else Some payload)"

text \<open>
  Password hashing is passlib's \<open>CryptContext(schemes=["bcrypt"], deprecated="auto")\<close>,
  a third-party library. \<open>CryptContext.verify\<close> first identifies the scheme of the
  digest: bcrypt's \<open>identify\<close> is \<open>hash.startswith(ident_values)\<close>. A digest that no
  configured scheme identifies raises \<open>UnknownHashError\<close>; an identified one is handed to
  the bcrypt handler. The handler itself (key derivation, comparison, and its own errors
  on a digest that has the prefix but does not parse) is a parameter of the model, as is
  the hashing with a fresh salt.
\<close>

record crypt_context =
  handler_verify :: "string \<Rightarrow> string \<Rightarrow> py_exn + bool"
  handler_hash :: "string \<Rightarrow> string"

definition bcrypt_ident_values :: "string list" where
  "bcrypt_ident_values = [''$2$'', ''$2a$'', ''$2x$'', ''$2y$'', ''$2b$'']"

definition startswith :: "string \<Rightarrow> string \<Rightarrow> bool" where
  "startswith s p = (take (length p) s = p)"

definition bcrypt_identify :: "string \<Rightarrow> bool" where
  "bcrypt_identify h = list_ex (startswith h) bcrypt_ident_values"

definition pwd_context_verify :: "crypt_context \<Rightarrow> string \<Rightarrow> string \<Rightarrow> py_exn + bool" where
  "pwd_context_verify ctx secret h =
     (if bcrypt_identify h then handler_verify ctx secret h
      else Inl (UnknownHashError ''hash could not be identified''))"

definition verify_password :: "crypt_context \<Rightarrow> string \<Rightarrow> string \<Rightarrow> py_exn + bool" where
  "verify_password ctx plain_password hashed_password =
     pwd_context_verify ctx plain_password hashed_password"

definition get_password_hash :: "crypt_context \<Rightarrow> string \<Rightarrow> string" where
  "get_password_hash ctx password = handler_hash ctx password"

section \<open>Tables (app/models/models.py)\<close>

datatype UserRole = ADMIN | VIEWER

fun UserRole_value :: "UserRole \<Rightarrow> string" where
  "UserRole_value ADMIN = ''admin''"
| "UserRole_value VIEWER = ''viewer''"

datatype TransactionType = debit | credit

fun TransactionType_value :: "TransactionType \<Rightarrow> string" where
  "TransactionType_value debit = ''debit''"
| "TransactionType_value credit = ''credit''"

datatype ActionType = CREATE | UPDATE | DELETE | LOGIN | LOGOUT

fun ActionType_value :: "ActionType \<Rightarrow> string" where
  "ActionType_value CREATE = ''CREATE''"
| "ActionType_value UPDATE = ''UPDATE''"
| "ActionType_value DELETE = ''DELETE''"
| "ActionType_value LOGIN = ''LOGIN''"
| "ActionType_value LOGOUT = ''LOGOUT''"

text \<open>\<open>ActionType(s)\<close>: the member whose value is \<open>s\<close>, or a \<open>ValueError\<close>.\<close>

definition ActionType_of :: "string \<Rightarrow> py_exn + ActionType" where
  "ActionType_of s =
     (case List.find (\<lambda>a. ActionType_value a = s) [CREATE, UPDATE, DELETE, LOGIN, LOGOUT] of
        Some a \<Rightarrow> Inr a
      | None \<Rightarrow> Inl (ValueError (s @ '' is not a valid ActionType'')))"

text \<open>
  A row of each table. \<open>role\<close>, \<open>transaction_type\<close> and \<open>action_type\<close> are \<open>String\<close>
  columns: the database holds the value of the enumeration member, and a loaded row
  carries a plain \<open>str\<close>. The \<open>amount\<close> column is \<open>DECIMAL(precision=10, scale=2)\<close>: a
  row holds a whole number of hundredths, \<open>fr_amount\<close>, and \<open>float(db_record.amount)\<close> is
  that number divided by 100. A \<open>Decimal\<close> of a request is any rational number; when it
  is written to the column the database rounds it to two places, a tie away from zero.
  An amount beyond the precision of the column is outside the model.
\<close>

record user =
  u_id :: int
  u_username :: string
  u_email :: string
  u_password_hash :: string
  u_full_name :: string
  u_role :: string
  u_is_active :: bool
  u_created_at :: int
  u_updated_at :: int

record financial_record =
  fr_id :: int
  fr_amount :: int
  fr_description :: string
  fr_transaction_type :: string
  fr_created_by :: int
  fr_created_at :: int
  fr_updated_at :: int
  fr_is_deleted :: bool

record audit_log =
  al_id :: int
  al_user_id :: int
  al_action_type :: string
  al_table_name :: string
  al_record_id :: "int option"
  al_old_values :: "pydict option"
  al_new_values :: "pydict option"
  al_ip_address :: "string option"
  al_user_agent :: "string option"
  al_created_at :: int

definition numeric_10_2 :: "rat \<Rightarrow> int" where
  "numeric_10_2 x =
     (if 0 \<le> x then \<lfloor>x * 100 + 1 / 2\<rfloor> else - \<lfloor>- x * 100 + 1 / 2\<rfloor>)"

definition float_amount :: "int \<Rightarrow> rat" where
  "float_amount hundredths = of_int hundredths / 100"

text \<open>
  The committed state of the database: the three tables, and \<open>commits\<close>, the sequence of
  transactions committed so far, each named by the table and the primary key of the row
  it wrote. Every \<open>await db.commit()\<close> of the source appends one entry. A rollback
  discards what was not committed, so it leaves this state as it is. Constraint
  violations and I/O failures of the database are outside the model.
\<close>

record db =
  users :: "user list"
  financial_records :: "financial_record list"
  audit_logs :: "audit_log list"
  commits :: "(string \<times> int) list"

text \<open>The next value of an autoincrement primary key: above every key in the table.\<close>

definition next_id :: "int list \<Rightarrow> int" where
  "next_id ids = fold max ids 0 + 1"

text \<open>\<open>result.scalar_one_or_none()\<close> and \<open>result.scalar_one()\<close>.\<close>

fun scalar_one_or_none :: "'a list \<Rightarrow> py_exn + 'a option" where
  "scalar_one_or_none [] = Inr None"
| "scalar_one_or_none [x] = Inr (Some x)"
| "scalar_one_or_none (x # y # zs) =
     Inl (MultipleResultsFound ''Multiple rows were found when one or none was required'')"

fun scalar_one :: "'a list \<Rightarrow> py_exn + 'a" where
  "scalar_one [] = Inl (NoResultFound ''No row was found when one was required'')"
| "scalar_one [x] = Inr x"
| "scalar_one (x # y # zs) =
     Inl (MultipleResultsFound ''Multiple rows were found when exactly one was required'')"

text \<open>Committing a changed row writes it over the row with the same primary key.\<close>

definition commit_user :: "user \<Rightarrow> db \<Rightarrow> db" where
  "commit_user u d =
     d\<lparr> users := map (\<lambda>x. if u_id x = u_id u then u else x) (users d),
        commits := commits d @ [(''users'', u_id u)] \<rparr>"

definition commit_financial_record :: "financial_record \<Rightarrow> db \<Rightarrow> db" where
  "commit_financial_record r d =
     d\<lparr> financial_records := map (\<lambda>x. if fr_id x = fr_id r then r else x) (financial_records d),
        commits := commits d @ [(''financial_records'', fr_id r)] \<rparr>"

section \<open>Audit service (app/services/audit_service.py)\<close>

text \<open>
  \<open>AuditService.log_action\<close>: builds the row, adds it, commits and refreshes it (the
  database assigns \<open>id\<close> and \<open>created_at\<close>). The action type is stored as it is given: a
  string, or a member of \<open>ActionType\<close>, whose value the \<open>String\<close> column holds.
\<close>

definition log_action ::
  "int \<Rightarrow> db \<Rightarrow> int \<Rightarrow> string \<Rightarrow> string \<Rightarrow> int option \<Rightarrow> pydict option \<Rightarrow> pydict option \<Rightarrow>
   string option \<Rightarrow> string option \<Rightarrow> audit_log \<times> db" where
  "log_action now d user_id action_type table_name record_id old_values new_values
     ip_address user_agent =
     (let audit_log =
            \<lparr> al_id = next_id (map al_id (audit_logs d)),
              al_user_id = user_id,
              al_action_type = action_type,
              al_table_name = table_name,
              al_record_id = record_id,
              al_old_values = old_values,
              al_new_values = new_values,
              al_ip_address = ip_address,
              al_user_agent = user_agent,
              al_created_at = now \<rparr>
      in (audit_log,
          d\<lparr> audit_logs := audit_logs d @ [audit_log],
             commits := commits d @ [(''audit_logs'', al_id audit_log)] \<rparr>))"

text \<open>\<open>log_audit\<close>: the standalone function; a string action type is converted first.\<close>

definition log_audit ::
  "int \<Rightarrow> db \<Rightarrow> int \<Rightarrow> string \<Rightarrow> string \<Rightarrow> int option \<Rightarrow> pydict option \<Rightarrow> pydict option \<Rightarrow>
   string option \<Rightarrow> string option \<Rightarrow> py_exn + audit_log \<times> db" where
  "log_audit now d user_id action_type table_name record_id old_values new_values
     ip_address user_agent =
     (case ActionType_of action_type of
        Inl e \<Rightarrow> Inl e
      | Inr a \<Rightarrow>
          Inr (log_action now d user_id (ActionType_value a) table_name record_id
                 old_values new_values ip_address user_agent))"

section \<open>Request schemas (app/schemas/schemas.py)\<close>

text \<open>
  \<open>c.isupper()\<close>, \<open>c.islower()\<close> and \<open>c.isdigit()\<close> on one character, for ASCII. On
  code points beyond ASCII Python consults the Unicode tables, which are outside the
  model; there \<open>len\<close> counts code points where \<open>length\<close> counts bytes.
\<close>

definition py_isupper :: "char \<Rightarrow> bool" where
  "py_isupper c = (c \<in> set ''ABCDEFGHIJKLMNOPQRSTUVWXYZ'')"

definition py_islower :: "char \<Rightarrow> bool" where
  "py_islower c = (c \<in> set ''abcdefghijklmnopqrstuvwxyz'')"

definition py_isdigit :: "char \<Rightarrow> bool" where
  "py_isdigit c = (c \<in> set ''0123456789'')"

text \<open>
  \<open>UserCreate.validate_password\<close>: the field validator. It returns the password, or
  raises a \<open>ValueError\<close> whose message is the \<open>Inl\<close> here.
\<close>

definition validate_password :: "string \<Rightarrow> string + string" where
  "validate_password v =
     (if length v < 8 then Inl ''Password must be at least 8 characters long''
      else if \<not> list_ex py_isupper v
        then Inl ''Password must contain at least one uppercase letter''
      else if \<not> list_ex py_islower v
        then Inl ''Password must contain at least one lowercase letter''
      else if \<not> list_ex py_isdigit v
        then Inl ''Password must contain at least one digit''
      else Inr v)"

record UserCreate =
  uc_username :: string
  uc_email :: string
  uc_full_name :: string
  uc_role :: UserRole
  uc_is_active :: bool
  uc_password :: string

record UserUpdate =
  uu_username :: "string option"
  uu_email :: "string option"
  uu_full_name :: "string option"
  uu_role :: "UserRole option"
  uu_is_active :: "bool option"

record LoginRequest =
  lr_username :: string
  lr_password :: string

record PasswordChangeRequest =
  current_password :: string
  new_password :: string

record FinancialRecordCreate =
  frc_amount :: rat
  frc_description :: string
  frc_transaction_type :: TransactionType

record FinancialRecordUpdate =
  fru_amount :: "rat option"
  fru_description :: "string option"
  fru_transaction_type :: "TransactionType option"

text \<open>
  \<open>UserResponse\<close>: the public fields of a row. Pydantic's validation of a response
  against its schema is outside the model.
\<close>

record user_response =
  ur_id :: int
  ur_username :: string
  ur_email :: string
  ur_full_name :: string
  ur_role :: string
  ur_is_active :: bool
  ur_created_at :: int
  ur_updated_at :: int

definition user_response_of :: "user \<Rightarrow> user_response" where
  "user_response_of u =
     \<lparr> ur_id = u_id u, ur_username = u_username u, ur_email = u_email u,
       ur_full_name = u_full_name u, ur_role = u_role u, ur_is_active = u_is_active u,
       ur_created_at = u_created_at u, ur_updated_at = u_updated_at u \<rparr>"

text \<open>What an endpoint reads of the HTTP request: the peer's address and one header.\<close>

record request =
  client_host :: "string option"
  header_user_agent :: "string option"

text \<open>The truth value of an optional string: \<open>None\<close> and the empty string are false.\<close>

definition truthy :: "string option \<Rightarrow> bool" where
  "truthy s = (case s of None \<Rightarrow> False | Some x \<Rightarrow> x \<noteq> [])"

section \<open>The current user (app/core/security.py and app/routers/auth.py)\<close>

text \<open>
  \<open>get_current_user\<close> of \<open>app/core/security.py\<close>, used by the transactions router. The
  whole body stands in \<open>try ... except Exception\<close>, which turns everything raised inside,
  its own \<open>HTTPException\<close>s included, into \<open>credentials_exception\<close>.
\<close>

definition credentials_exception :: error where
  "credentials_exception =
     HTTPException 401 ''Could not validate credentials'' [(''WWW-Authenticate'', ''Bearer'')]"

definition security_get_current_user_body :: "settings \<Rightarrow> int \<Rightarrow> token \<Rightarrow> db \<Rightarrow> error + user" where
  "security_get_current_user_body cfg now tok d =
     (case verify_token cfg now tok ''access'' of
        None \<Rightarrow> Inl credentials_exception
      | Some payload \<Rightarrow>
          (case map_of payload ''sub'' of
             None \<Rightarrow> Inl credentials_exception
           | Some user_id \<Rightarrow>
               (case py_int user_id of
                  None \<Rightarrow> Inl credentials_exception
                | Some uid \<Rightarrow>
                    (case scalar_one_or_none (filter (\<lambda>u. u_id u = uid) (users d)) of
                       Inl e \<Rightarrow> Inl (Unhandled e)
                     | Inr None \<Rightarrow> Inl credentials_exception
                     | Inr (Some u) \<Rightarrow>
                         if \<not> u_is_active u
                         then Inl (HTTPException 401 ''Inactive user'' [])
                         else Inr u))))"

definition security_get_current_user :: "settings \<Rightarrow> int \<Rightarrow> token \<Rightarrow> db \<Rightarrow> error + user" where
  "security_get_current_user cfg now tok d =
     (case security_get_current_user_body cfg now tok d of
        Inl e \<Rightarrow> Inl credentials_exception
      | Inr u \<Rightarrow> Inr u)"

text \<open>
  \<open>get_current_user\<close> of \<open>app/routers/auth.py\<close>, used by the auth and users routers.
  Nothing catches the \<open>ValueError\<close> of \<open>int(user_id)\<close> here.
\<close>

definition auth_get_current_user :: "settings \<Rightarrow> int \<Rightarrow> token \<Rightarrow> db \<Rightarrow> error + user" where
  "auth_get_current_user cfg now tok d =
     (case verify_token cfg now tok ''access'' of
        None \<Rightarrow>
          Inl (HTTPException 401 ''Invalid or expired token'' [(''WWW-Authenticate'', ''Bearer'')])
      | Some payload \<Rightarrow>
          (case map_of payload ''sub'' of
             None \<Rightarrow> Inl (HTTPException 401 ''Invalid token payload'' [])
           | Some user_id \<Rightarrow>
               (case py_int user_id of
                  None \<Rightarrow> Inl (Unhandled (ValueError ''invalid literal for int() with base 10''))
                | Some uid \<Rightarrow>
                    (case scalar_one_or_none (filter (\<lambda>u. u_id u = uid) (users d)) of
                       Inl e \<Rightarrow> Inl (Unhandled e)
                     | Inr None \<Rightarrow> Inl (HTTPException 401 ''User not found or inactive'' [])
                     | Inr (Some u) \<Rightarrow>
                         if \<not> u_is_active u
                         then Inl (HTTPException 401 ''User not found or inactive'' [])
                         else Inr u))))"

definition get_admin_user :: "user \<Rightarrow> error + user" where
  "get_admin_user current_user =
     (if u_role current_user \<noteq> ''admin''
      then Inl (HTTPException 403 ''Admin access required'' [])
      else Inr current_user)"

section \<open>Authentication endpoints (app/routers/auth.py)\<close>

text \<open>
  An endpoint takes the committed database and returns what it answers or raises,
  together with the database it leaves. \<open>now\<close> is the clock of the request (the reads of
  the clock within one request are taken as one instant). The session is taken to keep
  the attributes of a loaded row readable after a commit, and \<open>db.refresh\<close> of a row
  just committed returns the row as written.
\<close>

record login_response =
  access_token :: token
  refresh_token :: token
  token_type :: string
  expires_in :: int
  resp_user :: user_response

definition login ::
  "settings \<Rightarrow> crypt_context \<Rightarrow> int \<Rightarrow> request \<Rightarrow> LoginRequest \<Rightarrow> db \<Rightarrow>
   (error + login_response) \<times> db" where
  "login cfg ctx now request login_data d =
     (let rejected = (Inl (HTTPException 401 ''Incorrect username or password'' []), d) in
      case scalar_one_or_none
             (filter (\<lambda>u. u_username u = lr_username login_data) (users d)) of
        Inl e \<Rightarrow> (Inl (Unhandled e), d)
      | Inr None \<Rightarrow> rejected
      | Inr (Some u) \<Rightarrow>
          if \<not> u_is_active u then rejected
          else
            (case verify_password ctx (lr_password login_data) (u_password_hash u) of
               Inl e \<Rightarrow> (Inl (Unhandled e), d)
             | Inr ok \<Rightarrow>
                 if \<not> ok then rejected
                 else
                   (let data = [(''sub'', JStr (py_str (u_id u))),
                                (''username'', JStr (u_username u))];
                        access = create_access_token cfg now data None;
                        refresh = create_refresh_token cfg now data;
                        logged = log_action now d (u_id u) (ActionType_value LOGIN) ''users''
                                   (Some (u_id u)) None None
                                   (client_host request) (header_user_agent request)
                    in (Inr \<lparr> access_token = access,
                               refresh_token = refresh,
                               token_type = ''bearer'',
                               expires_in = 30 * 60,
                               resp_user = user_response_of u \<rparr>,
                        snd logged))))"

definition change_password ::
  "crypt_context \<Rightarrow> int \<Rightarrow> request \<Rightarrow> PasswordChangeRequest \<Rightarrow> user \<Rightarrow> db \<Rightarrow>
   (error + string) \<times> db" where
  "change_password ctx now request password_data current_user d =
     (case verify_password ctx (current_password password_data)
             (u_password_hash current_user) of
        Inl e \<Rightarrow> (Inl (Unhandled e), d)
      | Inr ok \<Rightarrow>
          if \<not> ok then (Inl (HTTPException 400 ''Current password is incorrect'' []), d)
          else
            (let new_password_hash = get_password_hash ctx (new_password password_data);
                 current_user = current_user\<lparr> u_password_hash := new_password_hash,
                                              u_updated_at := now \<rparr>;
                 d1 = commit_user current_user d;
                 logged = log_action now d1 (u_id current_user) (ActionType_value UPDATE)
                            ''users'' (Some (u_id current_user)) None
                            (Some [(''password_changed'', JBool True)])
                            (client_host request) (header_user_agent request)
             in (Inr ''Password changed successfully'', snd logged)))"

text \<open>The snapshot that \<open>update_profile\<close> takes of a row, before and after.\<close>

definition profile_values :: "user \<Rightarrow> pydict" where
  "profile_values u =
     [(''username'', JStr (u_username u)), (''email'', JStr (u_email u)),
      (''full_name'', JStr (u_full_name u))]"

definition update_profile ::
  "int \<Rightarrow> request \<Rightarrow> UserUpdate \<Rightarrow> user \<Rightarrow> db \<Rightarrow> (error + user_response) \<times> db" where
  "update_profile now request profile_data current_user d =
     (let old_values = profile_values current_user;
          name_taken =
            (case uu_username profile_data of
               None \<Rightarrow> Inr None
             | Some n \<Rightarrow>
                 scalar_one_or_none
                   (filter (\<lambda>u. u_username u = n \<and> u_id u \<noteq> u_id current_user) (users d)))
      in case name_taken of
           Inl e \<Rightarrow> (Inl (Unhandled e), d)
         | Inr (Some existing) \<Rightarrow> (Inl (HTTPException 400 ''Username already exists'' []), d)
         | Inr None \<Rightarrow>
             (let current_user =
                    (case uu_username profile_data of
                       None \<Rightarrow> current_user
                     | Some n \<Rightarrow> current_user\<lparr> u_username := n \<rparr>);
                  email_taken =
                    (case uu_email profile_data of
                       None \<Rightarrow> Inr None
                     | Some m \<Rightarrow>
                         scalar_one_or_none
                           (filter (\<lambda>u. u_email u = m \<and> u_id u \<noteq> u_id current_user)
                              (users d)))
              in case email_taken of
                   Inl e \<Rightarrow> (Inl (Unhandled e), d)
                 | Inr (Some existing) \<Rightarrow>
                     (Inl (HTTPException 400 ''Email already exists'' []), d)
                 | Inr None \<Rightarrow>
                     (let current_user =
                            (case uu_email profile_data of
                               None \<Rightarrow> current_user
                             | Some m \<Rightarrow> current_user\<lparr> u_email := m \<rparr>);
                          current_user =
                            (case uu_full_name profile_data of
                               None \<Rightarrow> current_user
                             | Some f \<Rightarrow> current_user\<lparr> u_full_name := f \<rparr>);
                          current_user = current_user\<lparr> u_updated_at := now \<rparr>;
                          d1 = commit_user current_user d;
                          new_values = profile_values current_user;
                          logged = log_action now d1 (u_id current_user)
                                     (ActionType_value UPDATE) ''users''
                                     (Some (u_id current_user)) (Some old_values)
                                     (Some new_values)
                                     (client_host request) (header_user_agent request)
                      in (Inr (user_response_of current_user), snd logged))))"

section \<open>User administration (app/routers/users.py)\<close>

text \<open>
  The snapshots of this router read \<open>user.role.value\<close>. \<open>role\<close> is a \<open>String(20)\<close>
  column, so the attribute of a row that was loaded or refreshed from the database is a
  plain \<open>str\<close>, which has no attribute \<open>value\<close>: the access raises \<open>AttributeError\<close>.
  \<open>user_data.password\<close> in \<open>update_user\<close> reads a field that \<open>UserUpdate\<close> does not
  declare, which raises \<open>AttributeError\<close> as well. The messages are written without
  their quotation marks.
\<close>

definition str_value :: "string \<Rightarrow> py_exn + string" where
  "str_value s = Inl (AttributeError ''str object has no attribute value'')"

definition UserUpdate_password :: "UserUpdate \<Rightarrow> py_exn + string option" where
  "UserUpdate_password user_data = Inl (AttributeError ''UserUpdate object has no attribute password'')"

text \<open>
  \<open>except HTTPException: raise\<close>, then \<open>except Exception as e\<close>: roll back and answer 500
  with the text of the exception.
\<close>

definition reraise_or_500 :: "string \<Rightarrow> (error + 'a) \<times> db \<Rightarrow> (error + 'a) \<times> db" where
  "reraise_or_500 prefix r =
     (case fst r of
        Inl (Unhandled e) \<Rightarrow> (Inl (HTTPException 500 (prefix @ exn_str e) []), snd r)
      | _ \<Rightarrow> r)"

definition address_or_unknown :: "request \<Rightarrow> string option" where
  "address_or_unknown request =
     (case client_host request of Some h \<Rightarrow> Some h | None \<Rightarrow> Some ''unknown'')"

definition agent_or_unknown :: "request \<Rightarrow> string option" where
  "agent_or_unknown request =
     (case header_user_agent request of Some a \<Rightarrow> Some a | None \<Rightarrow> Some ''unknown'')"

definition user_values :: "user \<Rightarrow> string \<Rightarrow> pydict" where
  "user_values u role =
     [(''username'', JStr (u_username u)), (''email'', JStr (u_email u)),
      (''full_name'', JStr (u_full_name u)), (''role'', JStr role),
      (''is_active'', JBool (u_is_active u))]"

definition create_user ::
  "crypt_context \<Rightarrow> int \<Rightarrow> UserCreate \<Rightarrow> request \<Rightarrow> user \<Rightarrow> db \<Rightarrow>
   (error + user_response) \<times> db" where
  "create_user ctx now user_data request current_user d =
     reraise_or_500 ''Error creating user: ''
       (case scalar_one_or_none
               (filter (\<lambda>u. u_username u = uc_username user_data \<or>
                             u_email u = uc_email user_data) (users d)) of
          Inl e \<Rightarrow> (Inl (Unhandled e), d)
        | Inr (Some existing_user) \<Rightarrow>
            if u_username existing_user = uc_username user_data
            then (Inl (HTTPException 400 ''Username already exists'' []), d)
            else (Inl (HTTPException 400 ''Email already exists'' []), d)
        | Inr None \<Rightarrow>
            (let hashed_password = get_password_hash ctx (uc_password user_data);
                 new_user =
                   \<lparr> u_id = next_id (map u_id (users d)),
                     u_username = uc_username user_data,
                     u_email = uc_email user_data,
                     u_password_hash = hashed_password,
                     u_full_name = uc_full_name user_data,
                     u_role = UserRole_value (uc_role user_data),
                     u_is_active = uc_is_active user_data,
                     u_created_at = now,
                     u_updated_at = now \<rparr>;
                 d1 = d\<lparr> users := users d @ [new_user],
                         commits := commits d @ [(''users'', u_id new_user)] \<rparr>
             in case str_value (u_role new_user) of
                  Inl e \<Rightarrow> (Inl (Unhandled e), d1)
                | Inr role \<Rightarrow>
                    (let logged = log_action now d1 (u_id current_user) ''CREATE'' ''users''
                                    (Some (u_id new_user)) None
                                    (Some (user_values new_user role))
                                    (address_or_unknown request) (agent_or_unknown request)
                     in (Inr (user_response_of new_user), snd logged))))"

text \<open>The duplicate check of \<open>update_user\<close>: what it raises, if anything.\<close>

definition update_user_duplicate :: "int \<Rightarrow> UserUpdate \<Rightarrow> db \<Rightarrow> error option" where
  "update_user_duplicate user_id user_data d =
     (if truthy (uu_username user_data) \<or> truthy (uu_email user_data)
      then
        (case scalar_one_or_none
                (filter (\<lambda>u. u_id u \<noteq> user_id \<and>
                              ((truthy (uu_username user_data) \<and>
                                  Some (u_username u) = uu_username user_data) \<or>
                               (truthy (uu_email user_data) \<and>
                                  Some (u_email u) = uu_email user_data)))
                   (users d)) of
           Inl e \<Rightarrow> Some (Unhandled e)
         | Inr None \<Rightarrow> None
         | Inr (Some existing_user) \<Rightarrow>
             if Some (u_username existing_user) = uu_username user_data
             then Some (HTTPException 400 ''Username already exists'' [])
             else Some (HTTPException 400 ''Email already exists'' []))
      else None)"

definition update_user_fields :: "UserUpdate \<Rightarrow> user \<Rightarrow> user" where
  "update_user_fields user_data user =
     (let user = (case uu_username user_data of
                    None \<Rightarrow> user | Some n \<Rightarrow> user\<lparr> u_username := n \<rparr>);
          user = (case uu_email user_data of
                    None \<Rightarrow> user | Some m \<Rightarrow> user\<lparr> u_email := m \<rparr>);
          user = (case uu_full_name user_data of
                    None \<Rightarrow> user | Some f \<Rightarrow> user\<lparr> u_full_name := f \<rparr>);
          user = (case uu_role user_data of
                    None \<Rightarrow> user | Some r \<Rightarrow> user\<lparr> u_role := UserRole_value r \<rparr>);
          user = (case uu_is_active user_data of
                    None \<Rightarrow> user | Some b \<Rightarrow> user\<lparr> u_is_active := b \<rparr>)
      in user)"

definition update_user ::
  "crypt_context \<Rightarrow> int \<Rightarrow> int \<Rightarrow> UserUpdate \<Rightarrow> request \<Rightarrow> user \<Rightarrow> db \<Rightarrow>
   (error + user_response) \<times> db" where
  "update_user ctx now user_id user_data request current_user d =
     reraise_or_500 ''Error updating user: ''
       (case scalar_one_or_none (filter (\<lambda>u. u_id u = user_id) (users d)) of
          Inl e \<Rightarrow> (Inl (Unhandled e), d)
        | Inr None \<Rightarrow> (Inl (HTTPException 404 ''User not found'' []), d)
        | Inr (Some user) \<Rightarrow>
            (case update_user_duplicate user_id user_data d of
               Some raised \<Rightarrow> (Inl raised, d)
             | None \<Rightarrow>
                 (case str_value (u_role user) of
                    Inl e \<Rightarrow> (Inl (Unhandled e), d)
                  | Inr old_role \<Rightarrow>
                      (let old_values = user_values user old_role;
                           user = update_user_fields user_data user
                       in case UserUpdate_password user_data of
                            Inl e \<Rightarrow> (Inl (Unhandled e), d)
                          | Inr password \<Rightarrow>
                              (let user =
                                     (case password of
                                        None \<Rightarrow> user
                                      | Some pw \<Rightarrow>
                                          if pw \<noteq> []
                                          then user\<lparr> u_password_hash :=
                                                       get_password_hash ctx pw \<rparr>
                                          else user);
                                   user = user\<lparr> u_updated_at := now \<rparr>;
                                   d1 = commit_user user d
                               in case str_value (u_role user) of
                                    Inl e \<Rightarrow> (Inl (Unhandled e), d1)
                                  | Inr role \<Rightarrow>
                                      (let logged =
                                             log_action now d1 (u_id current_user) ''UPDATE''
                                               ''users'' (Some (u_id user)) (Some old_values)
                                               (Some (user_values user role))
                                               (address_or_unknown request)
                                               (agent_or_unknown request)
                                       in (Inr (user_response_of user), snd logged)))))))"

definition delete_user ::
  "int \<Rightarrow> int \<Rightarrow> request \<Rightarrow> user \<Rightarrow> db \<Rightarrow> (error + string) \<times> db" where
  "delete_user now user_id request current_user d =
     reraise_or_500 ''Error deleting user: ''
       (if user_id = u_id current_user
        then (Inl (HTTPException 400 ''Cannot delete your own account'' []), d)
        else
          (case scalar_one_or_none (filter (\<lambda>u. u_id u = user_id) (users d)) of
             Inl e \<Rightarrow> (Inl (Unhandled e), d)
           | Inr None \<Rightarrow> (Inl (HTTPException 404 ''User not found'' []), d)
           | Inr (Some user) \<Rightarrow>
               (case str_value (u_role user) of
                  Inl e \<Rightarrow> (Inl (Unhandled e), d)
                | Inr old_role \<Rightarrow>
                    (let old_values = user_values user old_role;
                         user = user\<lparr> u_is_active := False, u_updated_at := now \<rparr>;
                         d1 = commit_user user d;
                         logged = log_action now d1 (u_id current_user) ''DELETE'' ''users''
                                    (Some (u_id user)) (Some old_values)
                                    (Some [(''is_active'', JBool False)])
                                    (address_or_unknown request) (agent_or_unknown request)
                     in (Inr ''User deactivated successfully'', snd logged)))))"

section \<open>Financial records (app/routers/transactions.py)\<close>

text \<open>
  The responses of this router are the rows themselves. \<open>create_transaction\<close> catches
  every exception, an \<open>HTTPException\<close> included; the other two re-raise an
  \<open>HTTPException\<close> and turn the rest into 500 with a fixed detail.
\<close>

definition all_to_500 :: "string \<Rightarrow> (error + 'a) \<times> db \<Rightarrow> (error + 'a) \<times> db" where
  "all_to_500 msg r =
     (case fst r of Inl e \<Rightarrow> (Inl (HTTPException 500 msg []), snd r) | Inr x \<Rightarrow> r)"

definition unhandled_to_500 :: "string \<Rightarrow> (error + 'a) \<times> db \<Rightarrow> (error + 'a) \<times> db" where
  "unhandled_to_500 msg r =
     (case fst r of
        Inl (Unhandled e) \<Rightarrow> (Inl (HTTPException 500 msg []), snd r)
      | _ \<Rightarrow> r)"

definition record_values :: "financial_record \<Rightarrow> pydict" where
  "record_values r =
     [(''amount'', JNum (float_amount (fr_amount r))),
      (''description'', JStr (fr_description r)),
      (''transaction_type'', JStr (fr_transaction_type r))]"

definition create_transaction ::
  "int \<Rightarrow> FinancialRecordCreate \<Rightarrow> user \<Rightarrow> db \<Rightarrow> (error + financial_record) \<times> db" where
  "create_transaction now transaction current_user d =
     (if u_role current_user \<noteq> ''admin''
      then (Inl (HTTPException 403 ''Admin access required'' []), d)
      else
        all_to_500 ''Failed to create transaction''
          (let db_record =
                 \<lparr> fr_id = next_id (map fr_id (financial_records d)),
                   fr_amount = numeric_10_2 (frc_amount transaction),
                   fr_description = frc_description transaction,
                   fr_transaction_type =
                     TransactionType_value (frc_transaction_type transaction),
                   fr_created_by = u_id current_user,
                   fr_created_at = now,
                   fr_updated_at = now,
                   fr_is_deleted = False \<rparr>;
               d1 = d\<lparr> financial_records := financial_records d @ [db_record],
                       commits := commits d @ [(''financial_records'', fr_id db_record)] \<rparr>
           in case scalar_one
                     (filter (\<lambda>r. fr_id r = fr_id db_record) (financial_records d1)) of
                Inl e \<Rightarrow> (Inl (Unhandled e), d1)
              | Inr db_record \<Rightarrow>
                  (case log_audit now d1 (u_id current_user) ''CREATE'' ''financial_records''
                          (Some (fr_id db_record)) None
                          (Some [(''amount'', JNum (frc_amount transaction)),
                                 (''description'', JStr (frc_description transaction)),
                                 (''transaction_type'',
                                    JStr (TransactionType_value
                                            (frc_transaction_type transaction)))])
                          None None of
                     Inl e \<Rightarrow> (Inl (Unhandled e), d1)
                   | Inr logged \<Rightarrow> (Inr db_record, snd logged))))"

definition update_record_fields :: "FinancialRecordUpdate \<Rightarrow> financial_record \<Rightarrow> financial_record" where
  "update_record_fields transaction db_record =
     (let db_record = (case fru_amount transaction of
                         None \<Rightarrow> db_record
                       | Some a \<Rightarrow> db_record\<lparr> fr_amount := numeric_10_2 a \<rparr>);
          db_record = (case fru_description transaction of
                         None \<Rightarrow> db_record
                       | Some t \<Rightarrow> db_record\<lparr> fr_description := t \<rparr>);
          db_record = (case fru_transaction_type transaction of
                         None \<Rightarrow> db_record
                       | Some k \<Rightarrow>
                           db_record\<lparr> fr_transaction_type := TransactionType_value k \<rparr>)
      in db_record)"

definition update_transaction ::
  "int \<Rightarrow> int \<Rightarrow> FinancialRecordUpdate \<Rightarrow> user \<Rightarrow> db \<Rightarrow>
   (error + financial_record) \<times> db" where
  "update_transaction now record_id transaction current_user d =
     (if u_role current_user \<noteq> ''admin''
      then (Inl (HTTPException 403 ''Admin access required'' []), d)
      else
        unhandled_to_500 ''Failed to update transaction''
          (case scalar_one_or_none
                  (filter (\<lambda>r. fr_id r = record_id \<and> fr_is_deleted r = False)
                     (financial_records d)) of
             Inl e \<Rightarrow> (Inl (Unhandled e), d)
           | Inr None \<Rightarrow> (Inl (HTTPException 404 ''Transaction not found'' []), d)
           | Inr (Some db_record) \<Rightarrow>
               (let old_values = record_values db_record;
                    db_record = update_record_fields transaction db_record;
                    db_record = db_record\<lparr> fr_updated_at := now \<rparr>;
                    d1 = commit_financial_record db_record d;
                    new_values = record_values db_record
                in case log_audit now d1 (u_id current_user) ''UPDATE'' ''financial_records''
                          (Some (fr_id db_record)) (Some old_values) (Some new_values)
                          None None of
                     Inl e \<Rightarrow> (Inl (Unhandled e), d1)
                   | Inr logged \<Rightarrow> (Inr db_record, snd logged))))"

definition delete_transaction ::
  "int \<Rightarrow> int \<Rightarrow> user \<Rightarrow> db \<Rightarrow> (error + string) \<times> db" where
  "delete_transaction now record_id current_user d =
     (if u_role current_user \<noteq> ''admin''
      then (Inl (HTTPException 403 ''Admin access required'' []), d)
      else
        unhandled_to_500 ''Failed to delete transaction''
          (case scalar_one_or_none
                  (filter (\<lambda>r. fr_id r = record_id \<and> fr_is_deleted r = False)
                     (financial_records d)) of
             Inl e \<Rightarrow> (Inl (Unhandled e), d)
           | Inr None \<Rightarrow> (Inl (HTTPException 404 ''Transaction not found'' []), d)
           | Inr (Some db_record) \<Rightarrow>
               (let old_values = record_values db_record @ [(''is_deleted'', JBool False)];
                    db_record = db_record\<lparr> fr_is_deleted := True, fr_updated_at := now \<rparr>;
                    d1 = commit_financial_record db_record d
                in case log_audit now d1 (u_id current_user) ''DELETE'' ''financial_records''
                          (Some (fr_id db_record)) (Some old_values)
                          (Some [(''is_deleted'', JBool True)]) None None of
                     Inl e \<Rightarrow> (Inl (Unhandled e), d1)
                   | Inr logged \<Rightarrow> (Inr ''Transaction deleted successfully'', snd logged))))"

section \<open>Mutating requests and their dependencies\<close>

text \<open>
  The mutating endpoints with the dependencies that FastAPI resolves before the body
  runs: the transactions router depends on \<open>get_current_user\<close> of
  \<open>app/core/security.py\<close>, the users router on \<open>get_admin_user\<close> over \<open>get_current_user\<close>
  of \<open>app/routers/auth.py\<close>, and the two profile endpoints on the latter alone.
\<close>

datatype mutation =
    CreateUser UserCreate
  | UpdateUser int UserUpdate
  | DeleteUser int
  | ChangePassword PasswordChangeRequest
  | UpdateProfile UserUpdate
  | CreateTransaction FinancialRecordCreate
  | UpdateTransaction int FinancialRecordUpdate
  | DeleteTransaction int

datatype response = UserOut user_response | RecordOut financial_record | MessageOut string

definition answer :: "('a \<Rightarrow> response) \<Rightarrow> (error + 'a) \<times> db \<Rightarrow> (error + response) \<times> db" where
  "answer f r = (map_sum (\<lambda>e. e) f (fst r), snd r)"

definition admin_dependency :: "settings \<Rightarrow> int \<Rightarrow> token \<Rightarrow> db \<Rightarrow> error + user" where
  "admin_dependency cfg now tok d =
     (case auth_get_current_user cfg now tok d of
        Inl e \<Rightarrow> Inl e
      | Inr u \<Rightarrow> get_admin_user u)"

fun handle ::
  "settings \<Rightarrow> crypt_context \<Rightarrow> int \<Rightarrow> request \<Rightarrow> token \<Rightarrow> mutation \<Rightarrow> db \<Rightarrow>
   (error + response) \<times> db" where
  "handle cfg ctx now request tok (CreateUser user_data) d =
     (case admin_dependency cfg now tok d of
        Inl e \<Rightarrow> (Inl e, d)
      | Inr u \<Rightarrow> answer UserOut (create_user ctx now user_data request u d))"
| "handle cfg ctx now request tok (UpdateUser user_id user_data) d =
     (case admin_dependency cfg now tok d of
        Inl e \<Rightarrow> (Inl e, d)
      | Inr u \<Rightarrow> answer UserOut (update_user ctx now user_id user_data request u d))"
| "handle cfg ctx now request tok (DeleteUser user_id) d =
     (case admin_dependency cfg now tok d of
        Inl e \<Rightarrow> (Inl e, d)
      | Inr u \<Rightarrow> answer MessageOut (delete_user now user_id request u d))"
| "handle cfg ctx now request tok (ChangePassword password_data) d =
     (case auth_get_current_user cfg now tok d of
        Inl e \<Rightarrow> (Inl e, d)
      | Inr u \<Rightarrow> answer MessageOut (change_password ctx now request password_data u d))"
| "handle cfg ctx now request tok (UpdateProfile profile_data) d =
     (case auth_get_current_user cfg now tok d of
        Inl e \<Rightarrow> (Inl e, d)
      | Inr u \<Rightarrow> answer UserOut (update_profile now request profile_data u d))"
| "handle cfg ctx now request tok (CreateTransaction transaction) d =
     (case security_get_current_user cfg now tok d of
        Inl e \<Rightarrow> (Inl e, d)
      | Inr u \<Rightarrow> answer RecordOut (create_transaction now transaction u d))"
| "handle cfg ctx now request tok (UpdateTransaction record_id transaction) d =
     (case security_get_current_user cfg now tok d of
        Inl e \<Rightarrow> (Inl e, d)
      | Inr u \<Rightarrow> answer RecordOut (update_transaction now record_id transaction u d))"
| "handle cfg ctx now request tok (DeleteTransaction record_id) d =
     (case security_get_current_user cfg now tok d of
        Inl e \<Rightarrow> (Inl e, d)
      | Inr u \<Rightarrow> answer MessageOut (delete_transaction now record_id u d))"











section \<open>The password policy in the spec's words\<close>

text \<open>
  The spec's policy: a minimum length of 8, and at least one uppercase letter, one
  lowercase letter and one digit. It is compared below with \<open>validate_password\<close>.
\<close>

definition spec_password_policy :: "string \<Rightarrow> bool" where
  "spec_password_policy v =
     (8 \<le> length v \<and> (\<exists>c \<in> set v. py_isupper c) \<and> (\<exists>c \<in> set v. py_islower c) \<and>
      (\<exists>c \<in> set v. py_isdigit c))"

section \<open>Example data\<close>

text \<open>
  Concrete values for the closed examples. \<open>example_context\<close> stands in for the bcrypt
  handler there: the digest of a password is the prefix \<open>$2b$\<close> followed by the password.
\<close>

definition example_context :: crypt_context where
  "example_context =
     \<lparr> handler_verify = (\<lambda>secret h. Inr (h = ''$2b$'' @ secret)),
       handler_hash = (\<lambda>secret. ''$2b$'' @ secret) \<rparr>"

definition example_admin :: user where
  "example_admin =
     \<lparr> u_id = 1, u_username = ''admin'', u_email = ''admin@example.org'',
       u_password_hash = ''$2b$Abcdefg1'', u_full_name = ''Admin'', u_role = ''admin'',
       u_is_active = True, u_created_at = 0, u_updated_at = 0 \<rparr>"

definition example_inactive :: user where
  "example_inactive =
     \<lparr> u_id = 2, u_username = ''former'', u_email = ''former@example.org'',
       u_password_hash = ''$2b$Zyxwvut9'', u_full_name = ''Former'', u_role = ''viewer'',
       u_is_active = False, u_created_at = 0, u_updated_at = 0 \<rparr>"

definition example_record :: financial_record where
  "example_record =
     \<lparr> fr_id = 1, fr_amount = 2500, fr_description = ''fees'',
       fr_transaction_type = ''credit'', fr_created_by = 1, fr_created_at = 0,
       fr_updated_at = 0, fr_is_deleted = False \<rparr>"

definition example_db :: db where
  "example_db =
     \<lparr> users = [example_admin, example_inactive], financial_records = [example_record],
       audit_logs = [], commits = [] \<rparr>"


definition example_request :: request where
  "example_request = \<lparr> client_host = Some ''10.0.0.1'', header_user_agent = None \<rparr>"

text \<open>An access token for the user with the given \<open>sub\<close>, expiring at instant 2000.\<close>

definition example_token :: "string \<Rightarrow> token" where
  "example_token sub =
     JWS [(''sub'', JStr sub), (''exp'', JInt 2000), (''type'', JStr ''access'')]
       (SECRET_KEY default_settings) (ALGORITHM default_settings)"

section \<open>Claims about tokens\<close>

lemmas token_eval =
  verify_token_def jwt_decode_def jwt_encode_def create_access_token_def
  create_refresh_token_def access_expire_def validate_claims_def validate_iat_def
  validate_nbf_def validate_exp_def validate_aud_def validate_sub_def validate_jti_def
  validate_at_hash_def is_str_or_absent_def default_settings_def Let_def

lemma map_of_issued_other:
  "k \<noteq> ''type'' \<Longrightarrow> k \<noteq> ''exp'' \<Longrightarrow>
   map_of (AList.update ''type'' v (AList.update ''exp'' w d)) k = map_of d k"
  by (simp add: update_conv')

lemma map_of_issued_type:
  "map_of (AList.update ''type'' v (AList.update ''exp'' w d)) ''type'' = Some v"
  by (simp add: update_conv')

lemma map_of_issued_exp:
  "map_of (AList.update ''type'' v (AList.update ''exp'' w d)) ''exp'' = Some w"
  by (simp add: update_conv')

text \<open>
  The claims that the issuer sets do not touch what the library checks of the others.
\<close>

lemma validate_issued:
  "validate_claims t (AList.update ''type'' v (AList.update ''exp'' (JInt e) d)) =
   (validate_iat d \<and> validate_nbf t d \<and> \<not> e < t \<and> validate_aud d \<and> validate_sub d \<and>
    validate_jti d \<and> validate_at_hash d)"
  by (simp add: validate_claims_def validate_iat_def validate_nbf_def validate_exp_def
       validate_aud_def validate_sub_def validate_jti_def validate_at_hash_def update_conv')

lemma verify_issued:
  "verify_token cfg t
     (JWS (AList.update ''type'' (JStr kind) (AList.update ''exp'' (JInt e) d))
        (SECRET_KEY cfg) (ALGORITHM cfg)) ty =
   (if validate_iat d \<and> validate_nbf t d \<and> \<not> e < t \<and> validate_aud d \<and> validate_sub d \<and>
       validate_jti d \<and> validate_at_hash d \<and> ty = kind
    then Some (AList.update ''type'' (JStr kind) (AList.update ''exp'' (JInt e) d))
    else None)"
  by (simp add: verify_token_def jwt_decode_def validate_issued map_of_issued_type)


text \<open>
  C2. Verification rejects every token whose \<open>type\<close> claim differs from the expected
  type, whatever its signature and expiry: a token issued by \<open>create_refresh_token\<close> never
  verifies as \<open>access\<close>, and a token issued by \<open>create_access_token\<close> never verifies as
  \<open>refresh\<close>, at any time and for any input claims.
\<close>

theorem verify_token_rejects_other_type:
  "(map_of claims ''type'' \<noteq> Some (JStr ty) \<longrightarrow>
      verify_token cfg t (JWS claims k a) ty = None) \<and>
   verify_token cfg t (create_refresh_token cfg now d) ''access'' = None \<and>
   verify_token cfg t (create_access_token cfg now d delta) ''refresh'' = None"
  by (simp add: verify_token_def jwt_decode_def create_access_token_def
        create_refresh_token_def jwt_encode_def Let_def update_conv' split: option.splits)

theorem verify_token_rejects_other_type_witness:
  "map_of [(''sub'', JStr ''1''), (''exp'', JInt 100), (''type'', JStr ''refresh'')] ''type''
     \<noteq> Some (JStr ''access'') \<and>
   verify_token default_settings 50
     (JWS [(''sub'', JStr ''1''), (''exp'', JInt 100), (''type'', JStr ''refresh'')]
        (SECRET_KEY default_settings) (ALGORITHM default_settings)) ''access'' = None \<and>
   verify_token default_settings 50
     (JWS [(''sub'', JStr ''1''), (''exp'', JInt 100), (''type'', JStr ''refresh'')]
        (SECRET_KEY default_settings) (ALGORITHM default_settings)) ''refresh''
     = Some [(''sub'', JStr ''1''), (''exp'', JInt 100), (''type'', JStr ''refresh'')]"
  using verify_token_rejects_other_type
    [of "[(''sub'', JStr ''1''), (''exp'', JInt 100), (''type'', JStr ''refresh'')]"
      "''access''" default_settings 50 "SECRET_KEY default_settings"
      "ALGORITHM default_settings"]
  by (simp add: verify_token_def jwt_decode_def validate_claims_def validate_iat_def
       validate_nbf_def validate_exp_def validate_aud_def validate_sub_def validate_jti_def
       validate_at_hash_def is_str_or_absent_def default_settings_def)

text \<open>
  C3. A token whose \<open>exp\<close> lies before the current instant is rejected, whatever key
  signed it and even when its type is the expected one; there is no leeway: one second
  past the expiry is enough. So a token issued by \<open>create_access_token\<close> or
  \<open>create_refresh_token\<close> is rejected at every instant after its expiry.
\<close>

theorem verify_token_rejects_expired:
  "(map_of claims ''exp'' = Some v \<and> py_int v = Some e \<and> e < now \<longrightarrow>
      verify_token cfg now (JWS claims k a) ty = None) \<and>
   (access_expire cfg now0 delta < now \<longrightarrow>
      verify_token cfg now (create_access_token cfg now0 d delta) ''access'' = None) \<and>
   (now0 + 86400 * REFRESH_TOKEN_EXPIRE_DAYS cfg < now \<longrightarrow>
      verify_token cfg now (create_refresh_token cfg now0 d) ''refresh'' = None)"
  by (simp add: verify_token_def jwt_decode_def validate_claims_def validate_exp_def
        create_access_token_def create_refresh_token_def jwt_encode_def Let_def
        map_of_issued_exp)

theorem verify_token_rejects_expired_witness:
  "map_of [(''sub'', JStr ''1''), (''exp'', JInt 2000), (''type'', JStr ''access'')] ''exp''
     = Some (JInt 2000) \<and> py_int (JInt 2000) = Some 2000 \<and> (2000::int) < 2001 \<and>
   verify_token default_settings 2001 (example_token ''1'') ''access'' = None \<and>
   verify_token default_settings 2000 (example_token ''1'') ''access''
     = Some [(''sub'', JStr ''1''), (''exp'', JInt 2000), (''type'', JStr ''access'')]"
  using verify_token_rejects_expired
    [of "[(''sub'', JStr ''1''), (''exp'', JInt 2000), (''type'', JStr ''access'')]"
       "JInt 2000" 2000 2001 default_settings "SECRET_KEY default_settings"
       "ALGORITHM default_settings" "''access''"]
  by (simp add: example_token_def token_eval)

text \<open>
  C9, as the code has it. Whatever the input claims \<open>d\<close>, also when \<open>d\<close> holds its own
  \<open>type\<close> or \<open>exp\<close>: a token of \<open>create_access_token\<close> verifies only as \<open>access\<close> and a
  token of \<open>create_refresh_token\<close> only as \<open>refresh\<close>, and the verified payload carries
  the issuer's \<open>type\<close> and \<open>exp\<close> and agrees with \<open>d\<close> on every other key. Up to its expiry
  the token does verify, and yields \<open>d\<close> with the issuer's two claims, provided the
  library accepts the other registered claims of \<open>d\<close> (\<open>sub\<close> and \<open>jti\<close> absent or strings,
  no \<open>aud\<close> or \<open>at_hash\<close>, \<open>iat\<close> and \<open>nbf\<close> absent or integers with \<open>nbf\<close> not in the
  future).
\<close>

theorem issued_token_kind_and_expiry:
  "(verify_token cfg t (create_access_token cfg now d delta) ty = Some p \<longrightarrow>
      ty = ''access'' \<and> map_of p ''type'' = Some (JStr ''access'') \<and>
      map_of p ''exp'' = Some (JInt (access_expire cfg now delta)) \<and>
      (\<forall>k. k \<noteq> ''type'' \<and> k \<noteq> ''exp'' \<longrightarrow> map_of p k = map_of d k)) \<and>
   (verify_token cfg t (create_refresh_token cfg now d) ty = Some p \<longrightarrow>
      ty = ''refresh'' \<and> map_of p ''type'' = Some (JStr ''refresh'') \<and>
      map_of p ''exp'' = Some (JInt (now + 86400 * REFRESH_TOKEN_EXPIRE_DAYS cfg)) \<and>
      (\<forall>k. k \<noteq> ''type'' \<and> k \<noteq> ''exp'' \<longrightarrow> map_of p k = map_of d k)) \<and>
   (validate_iat d \<and> validate_nbf t d \<and> validate_aud d \<and> validate_sub d \<and>
    validate_jti d \<and> validate_at_hash d \<longrightarrow>
      (t \<le> access_expire cfg now delta \<longrightarrow>
         verify_token cfg t (create_access_token cfg now d delta) ''access'' =
           Some (AList.update ''type'' (JStr ''access'')
                  (AList.update ''exp'' (JInt (access_expire cfg now delta)) d))) \<and>
      (t \<le> now + 86400 * REFRESH_TOKEN_EXPIRE_DAYS cfg \<longrightarrow>
         verify_token cfg t (create_refresh_token cfg now d) ''refresh'' =
           Some (AList.update ''type'' (JStr ''refresh'')
                  (AList.update ''exp''
                     (JInt (now + 86400 * REFRESH_TOKEN_EXPIRE_DAYS cfg)) d))))"
  by (auto simp add: create_access_token_def create_refresh_token_def jwt_encode_def Let_def
        verify_issued map_of_issued_type map_of_issued_exp map_of_issued_other
        split: if_splits)

theorem issued_token_kind_and_expiry_witness:
  "verify_token default_settings 100
     (create_access_token default_settings 40
        [(''sub'', JStr ''7''), (''type'', JStr ''refresh''), (''exp'', JInt 1)] None) ''access''
     = Some [(''sub'', JStr ''7''), (''type'', JStr ''access''), (''exp'', JInt 1840)] \<and>
   verify_token default_settings 100
     (create_access_token default_settings 40
        [(''sub'', JStr ''7''), (''type'', JStr ''refresh''), (''exp'', JInt 1)] None) ''refresh''
     = None \<and>
   map_of [(''sub'', JStr ''7''), (''type'', JStr ''access''), (''exp'', JInt 1840)] ''sub''
     = Some (JStr ''7'')"
  using issued_token_kind_and_expiry
    [of default_settings 100 40
       "[(''sub'', JStr ''7''), (''type'', JStr ''refresh''), (''exp'', JInt 1)]"
       None "''access''"
       "[(''sub'', JStr ''7''), (''type'', JStr ''access''), (''exp'', JInt 1840)]"]
  by (simp add: token_eval)

text \<open>
  C9 as stated fails: the round trip does not hold for every input. With an integer
  \<open>sub\<close> the token is issued, and then refused by the library's check of \<open>sub\<close>, one
  second after it was issued.
\<close>

theorem issued_token_roundtrip_counterexample:
  "verify_token default_settings 1
     (create_access_token default_settings 0 [(''sub'', JInt 5)] None) ''access'' = None"
  by (simp add: token_eval)

section \<open>Claims about passwords and login\<close>

lemmas example_eval =
  example_context_def example_admin_def example_inactive_def example_record_def
  example_db_def example_request_def example_token_def

lemmas login_eval =
  login_def verify_password_def pwd_context_verify_def bcrypt_identify_def
  bcrypt_ident_values_def startswith_def log_action_def next_id_def py_str_def
  user_response_of_def digit_char_def

lemmas current_user_eval =
  security_get_current_user_def security_get_current_user_body_def
  auth_get_current_user_def admin_dependency_def get_admin_user_def
  credentials_exception_def py_int_str_def py_strip_def py_isspace_def
  parse_unsigned_def digit_val_def

text \<open>
  C7. The password validator accepts \<open>Abcdefg1\<close>, rejects \<open>abcdefgh\<close> (no uppercase
  letter) and rejects \<open>short1A\<close> (7 characters); it accepts exactly the passwords that
  meet the spec's policy, returns an accepted password unchanged, and raises otherwise.
\<close>

theorem validate_password_policy:
  "validate_password ''Abcdefg1'' = Inr ''Abcdefg1'' \<and>
   validate_password ''abcdefgh'' = Inl ''Password must contain at least one uppercase letter'' \<and>
   validate_password ''short1A'' = Inl ''Password must be at least 8 characters long'' \<and>
   (validate_password v = Inr v) = spec_password_policy v \<and>
   isl (validate_password v) = (\<not> spec_password_policy v)"
  by (simp add: validate_password_def spec_password_policy_def list_ex_iff
        py_isupper_def py_islower_def py_isdigit_def)

text \<open>
  C8, as the code has it. \<open>verify_password\<close> hands both strings to the context and adds
  no handling of its own: on a digest that is not identified as bcrypt (none of the
  prefixes of the scheme) it raises \<open>UnknownHashError\<close>; on an identified digest its
  outcome is the bcrypt handler's, a boolean or an exception; so when it returns a
  boolean, the digest was identified and the boolean is the handler's.
\<close>

theorem verify_password_unidentified_raises:
  "(\<not> bcrypt_identify h \<longrightarrow>
      verify_password ctx p h = Inl (UnknownHashError ''hash could not be identified'')) \<and>
   (bcrypt_identify h \<longrightarrow> verify_password ctx p h = handler_verify ctx p h) \<and>
   (verify_password ctx p h = Inr b \<longrightarrow> bcrypt_identify h \<and> handler_verify ctx p h = Inr b)"
  by (simp add: verify_password_def pwd_context_verify_def)

theorem verify_password_unidentified_raises_witness:
  "\<not> bcrypt_identify ''not-a-hash'' \<and> bcrypt_identify ''$2b$Abcdefg1'' \<and>
   verify_password example_context ''Abcdefg1'' ''$2b$Abcdefg1'' = Inr True \<and>
   verify_password example_context ''Abcdefg1'' ''$2b$Zyxwvut9'' = Inr False \<and>
   handler_verify example_context ''Abcdefg1'' ''$2b$Abcdefg1'' = Inr True"
  using verify_password_unidentified_raises [of "''not-a-hash''" example_context "''Abcdefg1''" True]
    verify_password_unidentified_raises [of "''$2b$Abcdefg1''" example_context "''Abcdefg1''" True]
  by (simp add: verify_password_def pwd_context_verify_def bcrypt_identify_def
       bcrypt_ident_values_def startswith_def example_context_def)

text \<open>
  C8 as stated fails: on a malformed digest \<open>verify_password\<close> raises, it does not
  return false.
\<close>

theorem verify_password_malformed_counterexample:
  "verify_password example_context ''Abcdefg1'' ''not-a-hash''
     = Inl (UnknownHashError ''hash could not be identified'')"
  by (simp add: verify_password_def pwd_context_verify_def bcrypt_identify_def
       bcrypt_ident_values_def startswith_def example_context_def)




text \<open>
  C5. For a user name that matches one active user whose digest the password verifies
  against, with the default lifetimes (30 minutes, 7 days): login succeeds with
  \<open>expires_in = 1800\<close> and token type \<open>bearer\<close>; the access token verifies as \<open>access\<close> at
  every instant up to 1800 seconds after issue, with that expiry and the user's id as
  \<open>sub\<close>; the refresh token verifies as \<open>refresh\<close> up to 604800 seconds after issue;
  neither verifies as the other kind.
\<close>

theorem login_success_tokens:
  assumes "filter (\<lambda>x. u_username x = lr_username ld) (users d) = [u]"
    and "u_is_active u"
    and "verify_password ctx (lr_password ld) (u_password_hash u) = Inr True"
    and "ACCESS_TOKEN_EXPIRE_MINUTES cfg = 30"
    and "REFRESH_TOKEN_EXPIRE_DAYS cfg = 7"
  shows "\<exists>r d'. login cfg ctx now request ld d = (Inr r, d') \<and>
           expires_in r = 1800 \<and> token_type r = ''bearer'' \<and>
           resp_user r = user_response_of u \<and>
           (\<forall>t. t \<le> now + 1800 \<longrightarrow>
              (\<exists>p. verify_token cfg t (access_token r) ''access'' = Some p \<and>
                   map_of p ''exp'' = Some (JInt (now + 1800)) \<and>
                   map_of p ''sub'' = Some (JStr (py_str (u_id u))))) \<and>
           (\<forall>t. t \<le> now + 604800 \<longrightarrow>
              (\<exists>p. verify_token cfg t (refresh_token r) ''refresh'' = Some p \<and>
                   map_of p ''exp'' = Some (JInt (now + 604800)) \<and>
                   map_of p ''sub'' = Some (JStr (py_str (u_id u))))) \<and>
           verify_token cfg t' (access_token r) ''refresh'' = None \<and>
           verify_token cfg t' (refresh_token r) ''access'' = None"
  using assms
  by (simp add: login_def Let_def verify_token_def jwt_decode_def jwt_encode_def
        create_access_token_def create_refresh_token_def access_expire_def
        validate_claims_def validate_iat_def validate_nbf_def validate_exp_def
        validate_aud_def validate_sub_def validate_jti_def validate_at_hash_def
        is_str_or_absent_def)

theorem login_success_tokens_witness:
  "filter (\<lambda>x. u_username x = lr_username \<lparr> lr_username = ''admin'', lr_password = ''Abcdefg1'' \<rparr>)
     (users example_db) = [example_admin] \<and>
   u_is_active example_admin \<and>
   verify_password example_context ''Abcdefg1'' (u_password_hash example_admin) = Inr True \<and>
   ACCESS_TOKEN_EXPIRE_MINUTES default_settings = 30 \<and>
   REFRESH_TOKEN_EXPIRE_DAYS default_settings = 7 \<and>
   fst (login default_settings example_context 1000 example_request
          \<lparr> lr_username = ''admin'', lr_password = ''Abcdefg1'' \<rparr> example_db) =
     Inr \<lparr> access_token =
             JWS [(''sub'', JStr ''1''), (''username'', JStr ''admin''),
                  (''exp'', JInt 2800), (''type'', JStr ''access'')]
               (SECRET_KEY default_settings) (ALGORITHM default_settings),
           refresh_token =
             JWS [(''sub'', JStr ''1''), (''username'', JStr ''admin''),
                  (''exp'', JInt 605800), (''type'', JStr ''refresh'')]
               (SECRET_KEY default_settings) (ALGORITHM default_settings),
           token_type = ''bearer'', expires_in = 1800,
           resp_user = user_response_of example_admin \<rparr>"
  using login_success_tokens
    [of "\<lparr> lr_username = ''admin'', lr_password = ''Abcdefg1'' \<rparr>" example_db example_admin
       example_context default_settings 1000 example_request 0]
  by (simp add: login_eval example_eval token_eval str_nat.simps)

section \<open>Claims about the current user and self-deletion\<close>

text \<open>
  C6, as the code has it. An administrator who deletes the own account is rejected with
  status 400 and the detail \<open>Cannot delete your own account\<close>; the database is
  unchanged, so no audit record is written and nobody is deactivated. This holds for
  the endpoint and for the request as a whole, with its dependency on an authenticated
  administrator.
\<close>

theorem delete_own_account_rejected:
  "(user_id = u_id current_user \<longrightarrow>
      delete_user now user_id request current_user d =
        (Inl (HTTPException 400 ''Cannot delete your own account'' []), d)) \<and>
   (admin_dependency cfg now tok d = Inr current_user \<longrightarrow>
      handle cfg ctx now request tok (DeleteUser (u_id current_user)) d =
        (Inl (HTTPException 400 ''Cannot delete your own account'' []), d))"
  by (simp add: delete_user_def reraise_or_500_def answer_def)

theorem delete_own_account_rejected_witness:
  "admin_dependency default_settings 1000 (example_token ''1'') example_db = Inr example_admin \<and>
   u_id example_admin = 1 \<and>
   handle default_settings example_context 1000 example_request (example_token ''1'')
     (DeleteUser 1) example_db =
     (Inl (HTTPException 400 ''Cannot delete your own account'' []), example_db)"
  using delete_own_account_rejected
    [of 1 example_admin 1000 example_request example_db default_settings
       "example_token ''1''" example_context]
  by (simp add: current_user_eval token_eval example_eval delete_user_def
       reraise_or_500_def answer_def)

text \<open>
  C6 as stated fails: the status of the rejection is 400, not the 403 of a
  \<open>ForbiddenError\<close>.
\<close>

theorem delete_own_account_status_counterexample:
  "fst (delete_user 1000 1 example_request example_admin example_db) =
     Inl (HTTPException 400 ''Cannot delete your own account'' []) \<and>
   fst (delete_user 1000 1 example_request example_admin example_db) \<noteq>
     Inl (HTTPException 403 ''Cannot delete your own account'' [])"
  by (simp add: delete_user_def reraise_or_500_def example_eval)

text \<open>
  The two implementations of \<open>get_current_user\<close> accept the same tokens: the one of
  \<open>security.py\<close> returns the user that the one of \<open>auth.py\<close> returns, and raises its one
  \<open>credentials_exception\<close> whenever the other raises anything.
\<close>

lemma security_as_auth:
  "security_get_current_user cfg now tok d =
     (case auth_get_current_user cfg now tok d of
        Inl e \<Rightarrow> Inl credentials_exception
      | Inr u \<Rightarrow> Inr u)"
  by (simp add: security_get_current_user_def security_get_current_user_body_def
        auth_get_current_user_def split: option.splits sum.splits)

text \<open>
  C10, as the code has it. For every token and database the two implementations accept
  the same tokens and return the same user. They differ in what they raise: the one of
  \<open>security.py\<close> always raises 401 \<open>Could not validate credentials\<close> with a
  \<open>WWW-Authenticate\<close> header; the one of \<open>auth.py\<close> raises 401 \<open>Invalid or expired token\<close>
  for a token that does not verify, 401 \<open>Invalid token payload\<close> for a payload without
  \<open>sub\<close>, and 401 \<open>User not found or inactive\<close> for a missing or inactive user.
\<close>

theorem get_current_user_same_acceptance:
  "security_get_current_user cfg now tok d =
     (case auth_get_current_user cfg now tok d of
        Inl e \<Rightarrow> Inl credentials_exception
      | Inr u \<Rightarrow> Inr u) \<and>
   (security_get_current_user cfg now tok d = Inr u) =
     (auth_get_current_user cfg now tok d = Inr u) \<and>
   (verify_token cfg now tok ''access'' = None \<longrightarrow>
      auth_get_current_user cfg now tok d =
        Inl (HTTPException 401 ''Invalid or expired token''
               [(''WWW-Authenticate'', ''Bearer'')])) \<and>
   (verify_token cfg now tok ''access'' = Some p \<and> map_of p ''sub'' = None \<longrightarrow>
      auth_get_current_user cfg now tok d =
        Inl (HTTPException 401 ''Invalid token payload'' [])) \<and>
   (verify_token cfg now tok ''access'' = Some p \<and> map_of p ''sub'' = Some v \<and>
    py_int v = Some uid \<and>
    (filter (\<lambda>x. u_id x = uid) (users d) = [] \<or>
     (filter (\<lambda>x. u_id x = uid) (users d) = [w] \<and> \<not> u_is_active w)) \<longrightarrow>
      auth_get_current_user cfg now tok d =
        Inl (HTTPException 401 ''User not found or inactive'' []))"
  by (auto simp add: security_as_auth auth_get_current_user_def split: sum.splits)

theorem get_current_user_same_acceptance_witness:
  "security_get_current_user default_settings 1000 (example_token ''1'') example_db
     = Inr example_admin \<and>
   auth_get_current_user default_settings 1000 (example_token ''1'') example_db
     = Inr example_admin \<and>
   verify_token default_settings 1000 (Opaque ''junk'') ''access'' = None \<and>
   auth_get_current_user default_settings 1000 (Opaque ''junk'') example_db =
     Inl (HTTPException 401 ''Invalid or expired token'' [(''WWW-Authenticate'', ''Bearer'')]) \<and>
   security_get_current_user default_settings 1000 (Opaque ''junk'') example_db =
     Inl (HTTPException 401 ''Could not validate credentials''
            [(''WWW-Authenticate'', ''Bearer'')])"
  using get_current_user_same_acceptance
    [of default_settings 1000 "Opaque ''junk''" example_db example_admin]
  by (simp add: current_user_eval token_eval example_eval)

text \<open>
  C10 as stated fails: for the token of an existing but inactive user the two raise
  different details and headers, and for a \<open>sub\<close> that is not a number the one of
  \<open>auth.py\<close> lets the \<open>ValueError\<close> of \<open>int\<close> escape where the other answers 401.
\<close>

theorem get_current_user_outcomes_counterexample:
  "security_get_current_user default_settings 1000 (example_token ''2'') example_db =
     Inl (HTTPException 401 ''Could not validate credentials''
            [(''WWW-Authenticate'', ''Bearer'')]) \<and>
   auth_get_current_user default_settings 1000 (example_token ''2'') example_db =
     Inl (HTTPException 401 ''User not found or inactive'' []) \<and>
   security_get_current_user default_settings 1000 (example_token ''abc'') example_db =
     Inl (HTTPException 401 ''Could not validate credentials''
            [(''WWW-Authenticate'', ''Bearer'')]) \<and>
   auth_get_current_user default_settings 1000 (example_token ''abc'') example_db =
     Inl (Unhandled (ValueError ''invalid literal for int() with base 10''))"
  by (simp add: current_user_eval token_eval example_eval)

section \<open>Claims about the audit trail\<close>






text \<open>
  The three endpoints of the users router never answer with success: each reads
  \<open>.value\<close> of a role that is a \<open>str\<close>, and \<open>create_user\<close> has committed the new user by
  then.
\<close>

lemma create_user_fails: "fst (create_user ctx now user_data request cu d) \<noteq> Inr r"
  by (simp add: create_user_def reraise_or_500_def str_value_def Let_def
        split: sum.splits option.splits error.splits)

lemma create_user_never: "create_user ctx now user_data request cu d \<noteq> (Inr r, d')"
  using create_user_fails [of ctx now user_data request cu d r] by (metis fst_conv)

lemma update_user_fails: "fst (update_user ctx now user_id user_data request cu d) \<noteq> Inr r"
  by (simp add: update_user_def reraise_or_500_def str_value_def Let_def
        split: sum.splits option.splits error.splits)

lemma update_user_never: "update_user ctx now user_id user_data request cu d \<noteq> (Inr r, d')"
  using update_user_fails [of ctx now user_id user_data request cu d r] by (metis fst_conv)

lemma delete_user_fails: "fst (delete_user now user_id request cu d) \<noteq> Inr r"
  by (simp add: delete_user_def reraise_or_500_def str_value_def Let_def
        split: sum.splits option.splits error.splits)

lemma delete_user_never: "delete_user now user_id request cu d \<noteq> (Inr r, d')"
  using delete_user_fails [of now user_id request cu d r] by (metis fst_conv)


















lemma create_user_commits_unaudited:
  "create_user example_context 1000
     \<lparr> uc_username = ''clerk'', uc_email = ''clerk@example.org'', uc_full_name = ''Clerk'',
       uc_role = VIEWER, uc_is_active = True, uc_password = ''Abcdefg1'' \<rparr>
     example_request example_admin example_db =
     (Inl (HTTPException 500 ''Error creating user: str object has no attribute value'' []),
      example_db\<lparr> users := users example_db @
                  [\<lparr> u_id = 3, u_username = ''clerk'', u_email = ''clerk@example.org'',
                     u_password_hash = ''$2b$Abcdefg1'', u_full_name = ''Clerk'',
                     u_role = ''viewer'', u_is_active = True, u_created_at = 1000,
                     u_updated_at = 1000 \<rparr>],
                commits := [(''users'', 3)] \<rparr>)"
  by (simp add: create_user_def reraise_or_500_def str_value_def get_password_hash_def
       next_id_def example_eval)





end
